theory Spec2Isabelle
  imports Main "HOL-Library.AList"
begin

section \<open>The tool handlers of the text editor server (server.py)\<close>

text \<open>
  The handlers receive requests that are already parsed. A request is modelled with the
  types its input schema declares; every key the handler tests for presence is an
  optional field (\<open>None\<close>: the key is absent). Patches and ranges stay dictionaries,
  since the handlers look keys up in them and hand them on unchanged.
\<close>

subsection \<open>Values, dictionaries, exceptions\<close>

datatype pyval = PNone | PInt int | PStr string

type_synonym pydict = "string \<rightharpoonup> pyval"

text \<open>
  The exceptions (subclasses of Python's \<open>Exception\<close>) that reach a handler's
  \<open>except\<close> clauses. \<open>OtherException\<close> carries the text of \<open>str(e)\<close>.
\<close>

datatype exn = RuntimeError string | KeyError string | OtherException string

definition quoted :: "string \<Rightarrow> string" where
  "quoted k = [CHR 0x27] @ k @ [CHR 0x27]"

text \<open>\<open>str(e)\<close>: a \<open>KeyError\<close> prints the \<open>repr\<close> of the missing key.\<close>

fun str_exn :: "exn \<Rightarrow> string" where
  "str_exn (RuntimeError m) = m"
| "str_exn (KeyError k) = quoted k"
| "str_exn (OtherException m) = m"

text \<open>\<open>d[k]\<close> on a dictionary.\<close>

definition getitem :: "pydict \<Rightarrow> string \<Rightarrow> exn + pyval" where
  "getitem d k = (case d k of None \<Rightarrow> Inl (KeyError k) | Some v \<Rightarrow> Inr v)"

text \<open>\<open>os.path.isabs\<close> (posixpath): the path starts with a slash.\<close>

definition isabs :: "string \<Rightarrow> bool" where
  "isabs p = (case p of [] \<Rightarrow> False | c # _ \<Rightarrow> c = CHR ''/'')"

text \<open>\<open>s.endswith("\n")\<close>.\<close>

definition ends_with_newline :: "string \<Rightarrow> bool" where
  "ends_with_newline s = (s \<noteq> [] \<and> last s = CHR 0x0A)"

subsection \<open>The disk, the editor and the calls a handler makes\<close>

text \<open>The disk maps a path to the content of the file stored there.\<close>

type_synonym disk = "string \<rightharpoonup> string"

text \<open>The dictionary \<open>{"result": ..., "reason": ..., "file_hash": ...}\<close> of one file.\<close>

record edit_result =
  er_result :: string
  er_reason :: "string option"
  er_file_hash :: "string option"

record file_info =
  fi_file_path :: "string option"
  fi_ranges :: "pydict list option"

text \<open>
  \<open>TextEditor\<close> (text_editor.py) is taken as a parameter: the three methods the handlers
  call. A method returns its value or the exception it raises; \<open>edit_file_contents\<close>
  also returns the disk it leaves. \<open>read_file_contents\<close> returns the tuple
  (content, start, end, hash, total_lines, size); its encoding is \<open>None\<close> where the
  caller leaves the default.
\<close>

record 'r text_editor =
  read_multiple_ranges :: "file_info list \<Rightarrow> string \<Rightarrow> disk \<Rightarrow> exn + 'r"
  edit_file_contents ::
    "string \<Rightarrow> string \<Rightarrow> pydict list \<Rightarrow> string \<Rightarrow> disk \<Rightarrow> (exn + edit_result) \<times> disk"
  read_file_contents ::
    "string \<Rightarrow> string option \<Rightarrow> disk \<Rightarrow> exn + (string \<times> int \<times> int \<times> string \<times> int \<times> int)"

text \<open>
  Every access of a handler to the disk goes through the editor or \<open>os.path.exists\<close>.
  The world is the disk together with the list of these calls, in the order made.
\<close>

datatype call =
    PathExists string
  | ReadMultipleRanges "file_info list" string
  | EditFileContents string string "pydict list" string
  | ReadFileContents string "string option"

record world =
  w_disk :: disk
  w_trace :: "call list"

definition path_exists :: "string \<Rightarrow> world \<Rightarrow> bool \<times> world" where
  "path_exists p w = (w_disk w p \<noteq> None, w\<lparr>w_trace := w_trace w @ [PathExists p]\<rparr>)"

definition call_read_multiple_ranges ::
  "'r text_editor \<Rightarrow> file_info list \<Rightarrow> string \<Rightarrow> world \<Rightarrow> (exn + 'r) \<times> world" where
  "call_read_multiple_ranges ed files encoding w =
     (read_multiple_ranges ed files encoding (w_disk w),
      w\<lparr>w_trace := w_trace w @ [ReadMultipleRanges files encoding]\<rparr>)"

definition call_edit_file_contents ::
  "'r text_editor \<Rightarrow> string \<Rightarrow> string \<Rightarrow> pydict list \<Rightarrow> string \<Rightarrow> world
     \<Rightarrow> (exn + edit_result) \<times> world" where
  "call_edit_file_contents ed file_path expected_hash patches encoding w =
     (case edit_file_contents ed file_path expected_hash patches encoding (w_disk w) of
        (r, d) \<Rightarrow>
          (r, \<lparr>w_disk = d,
               w_trace = w_trace w @ [EditFileContents file_path expected_hash patches encoding]\<rparr>))"

definition call_read_file_contents ::
  "'r text_editor \<Rightarrow> string \<Rightarrow> string option \<Rightarrow> world
     \<Rightarrow> (exn + (string \<times> int \<times> int \<times> string \<times> int \<times> int)) \<times> world" where
  "call_read_file_contents ed file_path encoding w =
     (read_file_contents ed file_path encoding (w_disk w),
      w\<lparr>w_trace := w_trace w @ [ReadFileContents file_path encoding]\<rparr>)"

text \<open>\<open>arguments.get("encoding", "utf-8")\<close>.\<close>

definition get_encoding :: "string option \<Rightarrow> string" where
  "get_encoding e = (case e of None \<Rightarrow> ''utf-8'' | Some enc \<Rightarrow> enc)"

text \<open>
  The handlers' last clause, \<open>except Exception as e: raise RuntimeError(f"Error
  processing request: {str(e)}")\<close>.
\<close>

definition error_processing_request :: "(exn + 'a) \<times> world \<Rightarrow> (exn + 'a) \<times> world" where
  "error_processing_request rw =
     (case rw of
        (Inl e, w) \<Rightarrow> (Inl (RuntimeError (''Error processing request: '' @ str_exn e)), w)
      | (Inr v, w) \<Rightarrow> (Inr v, w))"

subsection \<open>GetTextFileContentsHandler.run_tool\<close>

record get_arguments =
  ga_files :: "file_info list option"
  ga_encoding :: "string option"

text \<open>The loop of lines 88 to 92: every path is checked before anything is read.\<close>

fun check_file_paths :: "file_info list \<Rightarrow> exn + unit" where
  "check_file_paths [] = Inr ()"
| "check_file_paths (fi # rest) =
     (case fi_file_path fi of
        None \<Rightarrow> Inl (KeyError ''file_path'')
      | Some p \<Rightarrow>
          if \<not> isabs p then Inl (RuntimeError (''File path must be absolute: '' @ p))
          else check_file_paths rest)"

definition get_try_body :: "'r text_editor \<Rightarrow> get_arguments \<Rightarrow> world \<Rightarrow> (exn + 'r) \<times> world" where
  "get_try_body ed arguments w =
     (case ga_files arguments of
        None \<Rightarrow> (Inl (RuntimeError (''Missing required argument: '' @ quoted ''files'')), w)
      | Some files \<Rightarrow>
          (case check_file_paths files of
             Inl e \<Rightarrow> (Inl e, w)
           | Inr _ \<Rightarrow>
               call_read_multiple_ranges ed files (get_encoding (ga_encoding arguments)) w))"

definition get_run_tool :: "'r text_editor \<Rightarrow> get_arguments \<Rightarrow> world \<Rightarrow> (exn + 'r) \<times> world" where
  "get_run_tool ed arguments w =
     (case get_try_body ed arguments w of
        (Inl (KeyError k), w') \<Rightarrow>
          (Inl (RuntimeError (''Missing required argument: '' @ quoted (str_exn (KeyError k)))), w')
      | (Inl e, w') \<Rightarrow> (Inl (RuntimeError (''Error processing request: '' @ str_exn e)), w')
      | (Inr v, w') \<Rightarrow> (Inr v, w'))"

subsection \<open>EditTextFileContentsHandler.run_tool\<close>

record file_operation =
  fo_path :: "string option"
  fo_file_hash :: "string option"
  fo_patches :: "pydict list option"

record edit_arguments =
  ea_files :: "file_operation list option"
  ea_encoding :: "string option"

text \<open>The dictionary \<open>results\<close>, in insertion order; \<open>results[k] = v\<close> is \<open>AList.update\<close>.\<close>

type_synonym results = "(string \<times> edit_result) list"

definition error_entry :: "string \<Rightarrow> string option \<Rightarrow> edit_result" where
  "error_entry reason h = \<lparr>er_result = ''error'', er_reason = Some reason, er_file_hash = h\<rparr>"

text \<open>
  The handler of lines 221 to 236: the current hash is read again (with the default
  encoding), and is \<open>None\<close> when that read raises.
\<close>

definition read_current_hash :: "'r text_editor \<Rightarrow> string \<Rightarrow> world \<Rightarrow> string option \<times> world" where
  "read_current_hash ed file_path w =
     (case call_read_file_contents ed file_path None w of
        (Inr (_, _, _, current_hash, _, _), w') \<Rightarrow> (Some current_hash, w')
      | (Inl _, w') \<Rightarrow> (None, w'))"

text \<open>
  The inner \<open>try\<close> statement of one file operation (lines 203 to 236): the entry stored
  in \<open>results[file_path]\<close>, and the world it leaves.
\<close>

definition edit_one_file ::
  "'r text_editor \<Rightarrow> edit_arguments \<Rightarrow> string \<Rightarrow> string \<Rightarrow> pydict list \<Rightarrow> world
     \<Rightarrow> edit_result \<times> world" where
  "edit_one_file ed arguments file_path file_hash patches w =
     (if patches = [] then (error_entry ''Empty patches list'' (Some file_hash), w)
      else
        (case call_edit_file_contents ed file_path file_hash patches
                (get_encoding (ea_encoding arguments)) w of
           (Inr result, w') \<Rightarrow> (result, w')
         | (Inl e, w') \<Rightarrow>
             (case read_current_hash ed file_path w' of
                (current_hash, w'') \<Rightarrow> (error_entry (str_exn e) current_hash, w''))))"

text \<open>The \<open>for\<close> loop of lines 188 to 236.\<close>

fun edit_loop ::
  "'r text_editor \<Rightarrow> edit_arguments \<Rightarrow> file_operation list \<Rightarrow> results \<Rightarrow> world
     \<Rightarrow> (exn + results) \<times> world" where
  "edit_loop ed arguments [] results w = (Inr results, w)"
| "edit_loop ed arguments (file_operation # rest) results w =
     (case fo_path file_operation of
        None \<Rightarrow> (Inl (RuntimeError ''Missing required field: path''), w)
      | Some file_path \<Rightarrow>
     (case fo_file_hash file_operation of
        None \<Rightarrow> (Inl (RuntimeError ''Missing required field: file_hash''), w)
      | Some file_hash \<Rightarrow>
     (case fo_patches file_operation of
        None \<Rightarrow> (Inl (RuntimeError ''Missing required field: patches''), w)
      | Some patches \<Rightarrow>
          if \<not> isabs file_path
          then (Inl (RuntimeError (''File path must be absolute: '' @ file_path)), w)
          else
            (case edit_one_file ed arguments file_path file_hash patches w of
               (entry, w') \<Rightarrow>
                 edit_loop ed arguments rest (AList.update file_path entry results) w'))))"

definition edit_run_tool ::
  "'r text_editor \<Rightarrow> edit_arguments \<Rightarrow> world \<Rightarrow> (exn + results) \<times> world" where
  "edit_run_tool ed arguments w =
     error_processing_request
       (case ea_files arguments of
          None \<Rightarrow> (Inl (RuntimeError ''Missing required argument: files''), w)
        | Some files \<Rightarrow>
            if length files = 0 then (Inr [], w)
            else edit_loop ed arguments files [] w)"

subsection \<open>CreateTextFileHandler.run_tool\<close>

record create_arguments =
  ca_path :: "string option"
  ca_contents :: "string option"
  ca_encoding :: "string option"

definition creation_patch :: "string \<Rightarrow> pydict" where
  "creation_patch contents =
     [''start'' \<mapsto> PInt 1, ''end'' \<mapsto> PNone, ''contents'' \<mapsto> PStr contents,
      ''range_hash'' \<mapsto> PStr '''']"

definition create_run_tool ::
  "'r text_editor \<Rightarrow> create_arguments \<Rightarrow> world \<Rightarrow> (exn + edit_result) \<times> world" where
  "create_run_tool ed arguments w =
     error_processing_request
       (case ca_path arguments of
          None \<Rightarrow> (Inl (RuntimeError ''Missing required argument: path''), w)
        | Some file_path \<Rightarrow>
       (case ca_contents arguments of
          None \<Rightarrow> (Inl (RuntimeError ''Missing required argument: contents''), w)
        | Some contents \<Rightarrow>
            if \<not> isabs file_path
            then (Inl (RuntimeError (''File path must be absolute: '' @ file_path)), w)
            else
              (case path_exists file_path w of
                 (True, w') \<Rightarrow> (Inl (RuntimeError (''File already exists: '' @ file_path)), w')
               | (False, w') \<Rightarrow>
                   call_edit_file_contents ed file_path '''' [creation_patch contents]
                     (get_encoding (ca_encoding arguments)) w')))"

subsection \<open>AppendTextFileContentsHandler.run_tool\<close>

record append_arguments =
  aa_path :: "string option"
  aa_contents :: "string option"
  aa_file_hash :: "string option"
  aa_encoding :: "string option"

definition append_patch :: "int \<Rightarrow> string \<Rightarrow> pydict" where
  "append_patch total_lines append_content =
     [''start'' \<mapsto> PInt (total_lines + 1), ''end'' \<mapsto> PNone,
      ''contents'' \<mapsto> PStr append_content, ''range_hash'' \<mapsto> PStr '''']"

definition append_content :: "string \<Rightarrow> string" where
  "append_content contents =
     (if \<not> ends_with_newline contents then contents @ [CHR 0x0A] else contents)"

definition append_run_tool ::
  "'r text_editor \<Rightarrow> append_arguments \<Rightarrow> world \<Rightarrow> (exn + edit_result) \<times> world" where
  "append_run_tool ed arguments w =
     error_processing_request
       (case aa_path arguments of
          None \<Rightarrow> (Inl (RuntimeError ''Missing required argument: path''), w)
        | Some file_path \<Rightarrow>
       (case aa_contents arguments of
          None \<Rightarrow> (Inl (RuntimeError ''Missing required argument: contents''), w)
        | Some contents \<Rightarrow>
       (case aa_file_hash arguments of
          None \<Rightarrow> (Inl (RuntimeError ''Missing required argument: file_hash''), w)
        | Some file_hash \<Rightarrow>
            if \<not> isabs file_path
            then (Inl (RuntimeError (''File path must be absolute: '' @ file_path)), w)
            else
              (case path_exists file_path w of
                 (False, w1) \<Rightarrow> (Inl (RuntimeError (''File does not exist: '' @ file_path)), w1)
               | (True, w1) \<Rightarrow>
                   (case call_read_file_contents ed file_path
                           (Some (get_encoding (aa_encoding arguments))) w1 of
                      (Inl e, w2) \<Rightarrow> (Inl e, w2)
                    | (Inr (content, _, _, current_hash, total_lines, _), w2) \<Rightarrow>
                        if current_hash \<noteq> file_hash
                        then (Inl (RuntimeError
                                ''File hash mismatch - file may have been modified''), w2)
                        else
                          call_edit_file_contents ed file_path file_hash
                            [append_patch total_lines (append_content contents)]
                            (get_encoding (aa_encoding arguments)) w2)))))"

subsection \<open>DeleteTextFileContentsHandler.run_tool\<close>

record delete_arguments =
  da_file_path :: "string option"
  da_file_hash :: "string option"
  da_ranges :: "pydict list option"
  da_encoding :: "string option"

text \<open>The keys the input schema requires of an entry of \<open>ranges\<close> (line 463).\<close>

definition ranges_item_required :: "string list" where
  "ranges_item_required = [''start'', ''range_hash'']"

text \<open>
  One element of the list comprehension of lines 498 to 506; the keys are looked up in
  the order the dictionary display names them.
\<close>

definition deletion_patch :: "pydict \<Rightarrow> exn + pydict" where
  "deletion_patch r =
     (case getitem r ''start'' of Inl e \<Rightarrow> Inl e | Inr s \<Rightarrow>
     (case getitem r ''end'' of Inl e \<Rightarrow> Inl e | Inr e \<Rightarrow>
     (case getitem r ''range_hash'' of Inl e \<Rightarrow> Inl e | Inr h \<Rightarrow>
        Inr [''start'' \<mapsto> s, ''end'' \<mapsto> e, ''contents'' \<mapsto> PStr '''', ''range_hash'' \<mapsto> h])))"

fun deletion_patches :: "pydict list \<Rightarrow> exn + pydict list" where
  "deletion_patches [] = Inr []"
| "deletion_patches (r # rs) =
     (case deletion_patch r of
        Inl e \<Rightarrow> Inl e
      | Inr p \<Rightarrow> (case deletion_patches rs of Inl e \<Rightarrow> Inl e | Inr ps \<Rightarrow> Inr (p # ps)))"

definition delete_run_tool ::
  "'r text_editor \<Rightarrow> delete_arguments \<Rightarrow> world \<Rightarrow> (exn + edit_result) \<times> world" where
  "delete_run_tool ed arguments w =
     error_processing_request
       (case da_file_path arguments of
          None \<Rightarrow> (Inl (RuntimeError ''Missing required argument: file_path''), w)
        | Some file_path \<Rightarrow>
       (case da_file_hash arguments of
          None \<Rightarrow> (Inl (RuntimeError ''Missing required argument: file_hash''), w)
        | Some file_hash \<Rightarrow>
       (case da_ranges arguments of
          None \<Rightarrow> (Inl (RuntimeError ''Missing required argument: ranges''), w)
        | Some ranges \<Rightarrow>
            if \<not> isabs file_path
            then (Inl (RuntimeError (''File path must be absolute: '' @ file_path)), w)
            else
              (case path_exists file_path w of
                 (False, w') \<Rightarrow> (Inl (RuntimeError (''File does not exist: '' @ file_path)), w')
               | (True, w') \<Rightarrow>
                   (case deletion_patches ranges of
                      Inl e \<Rightarrow> (Inl e, w')
                    | Inr patches \<Rightarrow>
                        call_edit_file_contents ed file_path file_hash patches
                          (get_encoding (da_encoding arguments)) w')))))"

section \<open>The line-range patch engine\<close>

text \<open>
  text_editor.py, which defines \<open>TextEditor\<close>, is not among the sources. The handlers
  above take the editor as a parameter; the definitions of this section give one editor,
  written from sections 3 and 4 of the specification, for the statements that are about
  the engine itself and for concrete runs.
\<close>

subsection \<open>Hasher and file reader\<close>

text \<open>
  Modelled from the spec: the Hasher (section 4.1), a deterministic function from a
  content to its hash. The specification fixes no algorithm: the hasher is a parameter.
\<close>

type_synonym hasher = "string \<Rightarrow> string"

text \<open>
  Modelled from the spec: the LineSequence of a content (section 3). Every line keeps its
  terminator, a final line without terminator is kept as it is; the terminator is the
  line feed.
\<close>

fun split_lines :: "string \<Rightarrow> string list" where
  "split_lines [] = []"
| "split_lines (c # cs) =
     (if c = CHR 0x0A then [c] # split_lines cs
      else (case split_lines cs of [] \<Rightarrow> [ [c] ] | l # ls \<Rightarrow> (c # l) # ls))"

text \<open>Modelled from the spec: the lines \<open>start..end\<close> of a sequence, 1-based and inclusive.\<close>

definition line_range :: "string list \<Rightarrow> int \<Rightarrow> int \<Rightarrow> string list" where
  "line_range ls s e = take (nat (e - s + 1)) (drop (nat (s - 1)) ls)"

text \<open>
  Modelled from the spec: \<open>snapshot\<close> (section 4.2) as the tuple the handlers unpack,
  (content, start, end, hash, total_lines, size) of the whole file; a missing path is a
  NotFoundError.
\<close>

definition spec_read_file_contents ::
  "hasher \<Rightarrow> string \<Rightarrow> string option \<Rightarrow> disk
     \<Rightarrow> exn + (string \<times> int \<times> int \<times> string \<times> int \<times> int)" where
  "spec_read_file_contents H file_path encoding d =
     (case d file_path of
        None \<Rightarrow> Inl (OtherException (''File not found: '' @ file_path))
      | Some content \<Rightarrow>
          (let total_lines = int (length (split_lines content))
           in Inr (content, 1, total_lines, H content, total_lines, int (length content))))"

record range_result =
  rr_content :: string
  rr_start :: int
  rr_end :: int
  rr_range_hash :: string
  rr_total_lines :: int
  rr_content_size :: int

text \<open>
  Modelled from the spec: \<open>read_ranges\<close> for one RangeSpec (section 4.2). \<open>end = null\<close>
  is the last line, a larger \<open>end\<close> is clamped to it; \<open>start < 1\<close>, \<open>end < start\<close> and
  \<open>start > total_lines\<close> in a file that is not empty are an InvalidRangeError.
\<close>

definition read_range :: "hasher \<Rightarrow> string list \<Rightarrow> pydict \<Rightarrow> string + range_result" where
  "read_range H ls r =
     (case r ''start'' of
        Some (PInt s) \<Rightarrow>
          (let total_lines = int (length ls);
               e = (case r ''end'' of Some (PInt e) \<Rightarrow> min e total_lines | _ \<Rightarrow> total_lines);
               content = concat (line_range ls s e)
           in if s < 1 \<or> (s > total_lines \<and> total_lines \<noteq> 0) \<or> (e < s \<and> total_lines \<noteq> 0)
              then Inl ''invalid range''
              else Inr \<lparr>rr_content = content, rr_start = s, rr_end = e,
                        rr_range_hash = H content, rr_total_lines = total_lines,
                        rr_content_size = int (length content)\<rparr>)
      | _ \<Rightarrow> Inl ''invalid range'')"

fun read_ranges :: "hasher \<Rightarrow> string list \<Rightarrow> pydict list \<Rightarrow> string + range_result list" where
  "read_ranges H ls [] = Inr []"
| "read_ranges H ls (r # rs) =
     (case read_range H ls r of
        Inl err \<Rightarrow> Inl err
      | Inr x \<Rightarrow> (case read_ranges H ls rs of Inl err \<Rightarrow> Inl err | Inr xs \<Rightarrow> Inr (x # xs)))"

type_synonym read_result = "(string \<times> (string + range_result list \<times> string)) list"

text \<open>
  Modelled from the spec: the multi-file form of \<open>read_ranges\<close> (section 4.2), a mapping
  keyed by path; the error of one file is its entry and does not stop the others.
\<close>

definition read_one_file ::
  "hasher \<Rightarrow> disk \<Rightarrow> string \<Rightarrow> pydict list \<Rightarrow> string + range_result list \<times> string" where
  "read_one_file H d p rs =
     (case d p of
        None \<Rightarrow> Inl ''file not found''
      | Some content \<Rightarrow>
          (case read_ranges H (split_lines content) rs of
             Inl err \<Rightarrow> Inl err
           | Inr xs \<Rightarrow> Inr (xs, H content)))"

fun spec_read_files :: "hasher \<Rightarrow> disk \<Rightarrow> file_info list \<Rightarrow> read_result \<Rightarrow> read_result" where
  "spec_read_files H d [] acc = acc"
| "spec_read_files H d (fi # rest) acc =
     (case (fi_file_path fi, fi_ranges fi) of
        (Some p, Some rs) \<Rightarrow> spec_read_files H d rest (AList.update p (read_one_file H d p rs) acc)
      | (Some p, None) \<Rightarrow> spec_read_files H d rest (AList.update p (Inl ''invalid range'') acc)
      | (None, _) \<Rightarrow> spec_read_files H d rest acc)"

definition spec_read_multiple_ranges ::
  "hasher \<Rightarrow> file_info list \<Rightarrow> string \<Rightarrow> disk \<Rightarrow> exn + read_result" where
  "spec_read_multiple_ranges H files encoding d = Inr (spec_read_files H d files [])"

subsection \<open>Patch validator and orderer\<close>

text \<open>Modelled from the spec: a Patch (section 3), \<open>end = None\<close> for null.\<close>

record patch =
  pt_start :: int
  pt_end :: "int option"
  pt_contents :: string
  pt_range_hash :: string

text \<open>
  Modelled from the spec: a patch dictionary read as a Patch, with the defaults the input
  schema declares (\<open>start\<close> 1, \<open>end\<close> null) and an empty \<open>range_hash\<close> where it is left
  out; a missing \<open>contents\<close> or a value of another type is a malformed patch.
\<close>

definition parse_patch :: "pydict \<Rightarrow> patch option" where
  "parse_patch p =
     (case (p ''start'', p ''end'', p ''contents'', p ''range_hash'') of
        (s, e, Some (PStr c), h) \<Rightarrow>
          (if (case s of None \<Rightarrow> True | Some (PInt _) \<Rightarrow> True | _ \<Rightarrow> False)
              \<and> (case e of Some (PStr _) \<Rightarrow> False | _ \<Rightarrow> True)
              \<and> (case h of None \<Rightarrow> True | Some (PStr _) \<Rightarrow> True | _ \<Rightarrow> False)
           then Some \<lparr>pt_start = (case s of Some (PInt n) \<Rightarrow> n | _ \<Rightarrow> 1),
                      pt_end = (case e of Some (PInt n) \<Rightarrow> Some n | _ \<Rightarrow> None),
                      pt_contents = c,
                      pt_range_hash = (case h of Some (PStr x) \<Rightarrow> x | _ \<Rightarrow> [])\<rparr>
           else None)
      | _ \<Rightarrow> None)"

fun parse_patches :: "pydict list \<Rightarrow> patch list option" where
  "parse_patches [] = Some []"
| "parse_patches (p # ps) =
     (case parse_patch p of
        None \<Rightarrow> None
      | Some x \<Rightarrow> (case parse_patches ps of None \<Rightarrow> None | Some xs \<Rightarrow> Some (x # xs)))"

datatype patch_kind = Create | Append | Insert | Replace

text \<open>The last line a patch names: \<open>end = null\<close> is the end of the file.\<close>

definition resolved_end :: "int \<Rightarrow> patch \<Rightarrow> int" where
  "resolved_end total_lines p = (case pt_end p of None \<Rightarrow> total_lines | Some e \<Rightarrow> e)"

text \<open>
  Modelled from the spec: step 3 of section 4.3, the shape of a patch against a file of
  \<open>total_lines\<close> lines, tried in the order the specification lists the shapes.
\<close>

definition classify :: "int \<Rightarrow> patch \<Rightarrow> patch_kind option" where
  "classify total_lines p =
     (if total_lines = 0 \<and> pt_start p = 1 then Some Create
      else if pt_start p = total_lines + 1 \<and> (pt_end p = None \<or> pt_end p = Some total_lines)
        then Some Append
      else if 1 \<le> pt_start p \<and> pt_start p \<le> total_lines + 1 \<and> pt_end p = Some (pt_start p - 1)
        then Some Insert
      else if 1 \<le> pt_start p \<and> pt_start p \<le> resolved_end total_lines p
              \<and> resolved_end total_lines p \<le> total_lines
        then Some Replace
      else None)"

text \<open>
  Modelled from the spec: step 4 of section 4.3 and the rule of section 3 on empty range
  hashes. Only a replace patch is checked; it must carry the hash of the lines it names.
\<close>

definition range_hash_ok :: "hasher \<Rightarrow> string list \<Rightarrow> patch \<Rightarrow> bool" where
  "range_hash_ok H ls p =
     (case classify (int (length ls)) p of
        Some Replace \<Rightarrow>
          pt_range_hash p \<noteq> []
          \<and> pt_range_hash p
              = H (concat (line_range ls (pt_start p) (resolved_end (int (length ls)) p)))
      | _ \<Rightarrow> True)"

text \<open>
  Modelled from the spec: step 5 of section 4.3. Two patches overlap when their intervals
  \<open>[start, end]\<close> intersect; the interval of an insert or an append is empty.
\<close>

definition intervals_intersect :: "int \<Rightarrow> patch \<Rightarrow> patch \<Rightarrow> bool" where
  "intervals_intersect total_lines p q =
     (max (pt_start p) (pt_start q) \<le> min (resolved_end total_lines p) (resolved_end total_lines q))"

fun any_overlap :: "int \<Rightarrow> patch list \<Rightarrow> bool" where
  "any_overlap total_lines [] = False"
| "any_overlap total_lines (p # ps) =
     (list_ex (intervals_intersect total_lines p) ps \<or> any_overlap total_lines ps)"

text \<open>
  Modelled from the spec: steps 5 and 6 of section 4.3, the application order: descending
  by start line, the larger end first among equal starts.
\<close>

definition applies_before :: "int \<Rightarrow> patch \<Rightarrow> patch \<Rightarrow> bool" where
  "applies_before total_lines p q =
     (pt_start p > pt_start q
      \<or> (pt_start p = pt_start q \<and> resolved_end total_lines p \<ge> resolved_end total_lines q))"

fun insert_patch :: "int \<Rightarrow> patch \<Rightarrow> patch list \<Rightarrow> patch list" where
  "insert_patch total_lines p [] = [p]"
| "insert_patch total_lines p (q # qs) =
     (if applies_before total_lines p q then p # q # qs else q # insert_patch total_lines p qs)"

fun order_patches :: "int \<Rightarrow> patch list \<Rightarrow> patch list" where
  "order_patches total_lines [] = []"
| "order_patches total_lines (p # ps) = insert_patch total_lines p (order_patches total_lines ps)"

subsection \<open>Patch applier\<close>

text \<open>
  Modelled from the spec: the lines a patch contributes (section 4.4). A content that
  does not end in a terminator gets one, unless the patch reaches the end of a file whose
  final line had none.
\<close>

definition new_lines :: "bool \<Rightarrow> string \<Rightarrow> string list" where
  "new_lines keep_open contents =
     split_lines
       (if contents = [] \<or> ends_with_newline contents \<or> keep_open then contents
        else contents @ [CHR 0x0A])"

definition final_line_open :: "string list \<Rightarrow> bool" where
  "final_line_open ls = (ls \<noteq> [] \<and> \<not> ends_with_newline (last ls))"

text \<open>
  Modelled from the spec: one patch applied to the line sequence (section 4.4); \<open>orig\<close>
  is the sequence of the snapshot, which the line numbers of the patch refer to.
\<close>

definition apply_patch :: "string list \<Rightarrow> string list \<Rightarrow> patch \<Rightarrow> string list" where
  "apply_patch orig ls p =
     (let total_lines = int (length orig)
      in case classify total_lines p of
           Some Create \<Rightarrow> split_lines (pt_contents p)
         | Some Append \<Rightarrow> ls @ new_lines (final_line_open orig) (pt_contents p)
         | Some Insert \<Rightarrow>
             take (nat (pt_start p - 1)) ls @ new_lines False (pt_contents p)
               @ drop (nat (pt_start p - 1)) ls
         | Some Replace \<Rightarrow>
             take (nat (pt_start p - 1)) ls
               @ new_lines (resolved_end total_lines p = total_lines \<and> final_line_open orig) (pt_contents p)
               @ drop (nat (resolved_end total_lines p)) ls
         | None \<Rightarrow> ls)"

text \<open>
  Modelled from the spec: sections 4.3 and 4.4 on the lines of a snapshot: the patches
  are classified, their range hashes and overlaps checked, then applied from the highest
  start line down, the append patch last. The result is the new content or the error.
\<close>

definition validate_and_apply :: "hasher \<Rightarrow> string list \<Rightarrow> patch list \<Rightarrow> string + string" where
  "validate_and_apply H ls ps =
     (let total_lines = int (length ls);
          appends = filter (\<lambda>p. classify total_lines p = Some Append) ps;
          others = filter (\<lambda>p. classify total_lines p \<noteq> Some Append) ps;
          ranged = filter (\<lambda>p. classify total_lines p = Some Replace \<or> classify total_lines p = Some Insert) ps
      in if list_ex (\<lambda>p. classify total_lines p = None) ps then Inl ''invalid patch''
         else if list_ex (\<lambda>p. \<not> range_hash_ok H ls p) ps then Inl ''range hash mismatch''
         else if any_overlap total_lines ranged \<or> length appends > 1 then Inl ''overlapping patches''
         else Inr (concat (foldl (apply_patch ls) ls (order_patches total_lines others @ appends))))"

text \<open>
  Modelled from the spec: a creation-style patch (section 4.3, step 1): \<open>start = 1\<close> and
  \<open>end\<close> null or 0.
\<close>

definition creation_style :: "patch \<Rightarrow> bool" where
  "creation_style p = (pt_start p = 1 \<and> (pt_end p = None \<or> pt_end p = Some 0))"

text \<open>
  Modelled from the spec: the edit of one file (sections 4.3 and 4.4). A missing file is
  created only for an empty expected hash and creation-style patches; an existing file
  is edited only if the expected hash is its current full hash. Every failure is returned
  as an error result that carries the current hash, and leaves the file as it is; the
  new content replaces the old one in one step.
\<close>

definition spec_edit_file_contents ::
  "hasher \<Rightarrow> string \<Rightarrow> string \<Rightarrow> pydict list \<Rightarrow> string \<Rightarrow> disk
     \<Rightarrow> (exn + edit_result) \<times> disk" where
  "spec_edit_file_contents H file_path expected_hash patches encoding d =
     (case d file_path of
        None \<Rightarrow>
          (case parse_patches patches of
             None \<Rightarrow> (Inr (error_entry ''invalid patch'' None), d)
           | Some ps \<Rightarrow>
               if expected_hash = [] \<and> list_all creation_style ps
               then (case validate_and_apply H [] ps of
                       Inl err \<Rightarrow> (Inr (error_entry err None), d)
                     | Inr content \<Rightarrow>
                         (Inr \<lparr>er_result = ''ok'', er_reason = None,
                               er_file_hash = Some (H content)\<rparr>,
                          d(file_path \<mapsto> content)))
               else (Inr (error_entry ''file not found'' None), d))
      | Some current \<Rightarrow>
          if expected_hash \<noteq> H current
          then (Inr (error_entry ''file hash mismatch'' (Some (H current))), d)
          else
            (case parse_patches patches of
               None \<Rightarrow> (Inr (error_entry ''invalid patch'' (Some (H current))), d)
             | Some ps \<Rightarrow>
                 (case validate_and_apply H (split_lines current) ps of
                    Inl err \<Rightarrow> (Inr (error_entry err (Some (H current))), d)
                  | Inr content \<Rightarrow>
                      (Inr \<lparr>er_result = ''ok'', er_reason = None,
                            er_file_hash = Some (H content)\<rparr>,
                       d(file_path \<mapsto> content)))))"

definition spec_editor :: "hasher \<Rightarrow> read_result text_editor" where
  "spec_editor H =
     \<lparr>read_multiple_ranges = spec_read_multiple_ranges H,
      edit_file_contents = spec_edit_file_contents H,
      read_file_contents = spec_read_file_contents H\<rparr>"

text \<open>
  A hasher for concrete runs: it is injective, and no content has the empty hash, which
  is the token of a file that does not exist yet.
\<close>

definition tag_hash :: hasher where
  "tag_hash content = ''#'' @ content"

section \<open>Notions used in the statements\<close>

text \<open>The calls of a trace that hand patches to the editor.\<close>

fun is_edit_call :: "call \<Rightarrow> bool" where
  "is_edit_call (EditFileContents _ _ _ _) = True"
| "is_edit_call _ = False"

definition edits_attempted :: "world \<Rightarrow> call list" where
  "edits_attempted w = filter is_edit_call (w_trace w)"

text \<open>
  An edit as the create, append and delete handlers run it: one call of
  \<open>edit_file_contents\<close>, an exception of which leaves the handler as the RuntimeError
  "Error processing request: ...".
\<close>

definition edit_through_handler ::
  "'r text_editor \<Rightarrow> string \<Rightarrow> string \<Rightarrow> pydict list \<Rightarrow> string \<Rightarrow> world
     \<Rightarrow> (exn + edit_result) \<times> world" where
  "edit_through_handler ed file_path expected_hash patches encoding w =
     error_processing_request
       (call_edit_file_contents ed file_path expected_hash patches encoding w)"




text \<open>
  The patch that deletes a range, in the words of the specification: the start, end and
  range hash of the range, and the empty string as contents.
\<close>

definition range_deletion :: "pydict \<Rightarrow> pydict" where
  "range_deletion r =
     [''start'' \<mapsto> the (r ''start''), ''end'' \<mapsto> the (r ''end''),
      ''contents'' \<mapsto> PStr '''', ''range_hash'' \<mapsto> the (r ''range_hash'')]"

definition complete_range :: "pydict \<Rightarrow> bool" where
  "complete_range r = (r ''start'' \<noteq> None \<and> r ''end'' \<noteq> None \<and> r ''range_hash'' \<noteq> None)"

subsection \<open>A disk, a patch and a failing editor for the concrete runs\<close>

definition example_disk :: disk where
  "example_disk = [''/a.txt'' \<mapsto> ''a\<newline>b\<newline>c\<newline>'']"

definition example_world :: world where
  "example_world = \<lparr>w_disk = example_disk, w_trace = []\<rparr>"

definition example_patch :: pydict where
  "example_patch =
     [''start'' \<mapsto> PInt 2, ''end'' \<mapsto> PInt 2, ''contents'' \<mapsto> PStr ''B\<newline>'',
      ''range_hash'' \<mapsto> PStr ''#b\<newline>'']"

text \<open>An editor whose \<open>edit_file_contents\<close> raises an I/O error and writes nothing.\<close>

definition failing_editor :: "read_result text_editor" where
  "failing_editor =
     (spec_editor tag_hash)
       \<lparr>edit_file_contents := \<lambda>file_path expected_hash patches encoding d.
          (Inl (OtherException ''No space left on device''), d)\<rparr>"

section \<open>Auxiliary facts\<close>

lemmas engine_defs =
  spec_editor_def spec_edit_file_contents_def spec_read_file_contents_def tag_hash_def
  parse_patch_def validate_and_apply_def classify_def range_hash_ok_def apply_patch_def
  resolved_end_def line_range_def intervals_intersect_def applies_before_def new_lines_def
  final_line_open_def ends_with_newline_def creation_style_def error_entry_def

lemmas handler_defs =
  call_edit_file_contents_def call_read_file_contents_def path_exists_def
  error_processing_request_def get_encoding_def isabs_def edit_one_file_def
  read_current_hash_def edit_through_handler_def

lemmas example_defs =
  example_disk_def example_world_def example_patch_def failing_editor_def

lemma concat_split_lines: "concat (split_lines s) = s"
  by (induction s) (auto split: list.splits)

lemma spec_create_file:
  "d p = None \<Longrightarrow>
   spec_edit_file_contents H p []
     [ [''start'' \<mapsto> PInt 1, ''end'' \<mapsto> PNone, ''contents'' \<mapsto> PStr c,
       ''range_hash'' \<mapsto> PStr ''''] ] enc d =
     (Inr \<lparr>er_result = ''ok'', er_reason = None, er_file_hash = Some (H c)\<rparr>, d(p \<mapsto> c))"
  by (simp add: spec_edit_file_contents_def parse_patch_def creation_style_def
      validate_and_apply_def classify_def range_hash_ok_def apply_patch_def concat_split_lines)








lemma deletion_patches_complete:
  "list_all complete_range rs \<Longrightarrow> deletion_patches rs = Inr (map range_deletion rs)"
  by (induction rs)
    (auto simp: complete_range_def deletion_patch_def getitem_def range_deletion_def)

lemma deletion_patches_fail:
  "r \<in> set rs \<Longrightarrow> r ''end'' = None \<Longrightarrow> \<exists>k. deletion_patches rs = Inl (KeyError k)"
  by (induction rs) (auto simp: deletion_patch_def getitem_def split: option.splits sum.splits)

lemma deletion_patches_missing_end:
  "r \<in> set rs \<Longrightarrow> r ''end'' = None \<Longrightarrow>
   \<forall>x \<in> set rs. \<forall>k \<in> set ranges_item_required. x k \<noteq> None \<Longrightarrow>
   deletion_patches rs = Inl (KeyError ''end'')"
  by (induction rs)
    (auto simp: deletion_patch_def getitem_def ranges_item_required_def
      split: option.splits sum.splits)

lemma check_file_paths_relative:
  "fi \<in> set files \<Longrightarrow> fi_file_path fi = Some p \<Longrightarrow> \<not> isabs p \<Longrightarrow>
   \<exists>e. check_file_paths files = Inl e"
  by (induction files) (auto split: option.splits)

text \<open>
  The read handler checks every path before it reads: with a relative path anywhere in
  the request the call fails and the world is as before, no call made.
\<close>

lemma get_rejects_relative_path:
  assumes "ga_files arguments = Some files" and "fi \<in> set files"
    and "fi_file_path fi = Some p" and "\<not> isabs p"
  shows "\<exists>e. get_run_tool ed arguments w = (Inl e, w)"
proof -
  obtain e where "check_file_paths files = Inl e"
    using check_file_paths_relative[OF assms(2-4)] by blast
  then show ?thesis
    using assms(1) by (cases e) (simp_all add: get_run_tool_def get_try_body_def)
qed

section \<open>The properties\<close>

subsection \<open>Stale hash tokens\<close>

text \<open>
  C1. A request whose file hash token is not the current full hash of the file fails with
  a hash mismatch and leaves the file as it is; no patch is applied. First conjunct: the
  edit of the engine returns the error result "file hash mismatch", which carries the
  current hash, and the disk is unchanged, whatever the patches are. Second conjunct: the
  append handler (lines 381 to 389), with any editor, compares the token with the hash it
  has just read and raises before it asks for an edit.
\<close>

theorem stale_hash_is_conflict:
  "(d file_path = Some current \<and> expected_hash \<noteq> H current \<longrightarrow>
      spec_edit_file_contents H file_path expected_hash patches encoding d =
        (Inr (error_entry ''file hash mismatch'' (Some (H current))), d))
   \<and> (aa_path arguments = Some file_path \<and> isabs file_path
        \<and> aa_contents arguments = Some contents \<and> aa_file_hash arguments = Some token
        \<and> w_disk w file_path \<noteq> None
        \<and> read_file_contents ed file_path (Some (get_encoding (aa_encoding arguments))) (w_disk w)
             = Inr (content, s, e, current_hash, total_lines, sz)
        \<and> token \<noteq> current_hash \<longrightarrow>
      (\<exists>w'. append_run_tool ed arguments w =
              (Inl (RuntimeError
                 ''Error processing request: File hash mismatch - file may have been modified''),
               w')
            \<and> w_disk w' = w_disk w \<and> edits_attempted w' = edits_attempted w))"
  by (auto simp: spec_edit_file_contents_def append_run_tool_def path_exists_def
      error_processing_request_def call_read_file_contents_def edits_attempted_def)

theorem stale_hash_is_conflict_witness:
  "spec_edit_file_contents tag_hash ''/a.txt'' ''#a\<newline>b\<newline>'' [example_patch] ''utf-8''
     example_disk =
   (Inr \<lparr>er_result = ''error'', er_reason = Some ''file hash mismatch'',
         er_file_hash = Some ''#a\<newline>b\<newline>c\<newline>''\<rparr>, example_disk)
   \<and> fst (append_run_tool (spec_editor tag_hash)
     \<lparr>aa_path = Some ''/a.txt'', aa_contents = Some ''d'',
      aa_file_hash = Some ''#a\<newline>b\<newline>'', aa_encoding = None\<rparr> example_world) =
   Inl (RuntimeError
           ''Error processing request: File hash mismatch - file may have been modified'')"
  using stale_hash_is_conflict[where d = example_disk and file_path = "''/a.txt''"
      and current = "''a\<newline>b\<newline>c\<newline>''" and expected_hash = "''#a\<newline>b\<newline>''"
      and H = tag_hash and patches = "[example_patch]" and encoding = "''utf-8''"
      and arguments = "\<lparr>aa_path = Some ''/a.txt'', aa_contents = Some ''d'',
      aa_file_hash = Some ''#a\<newline>b\<newline>'', aa_encoding = None\<rparr>" and contents = "''d''"
      and token = "''#a\<newline>b\<newline>''" and ed = "spec_editor tag_hash"
      and w = example_world and content = "''a\<newline>b\<newline>c\<newline>''" and s = 1 and e = 3
      and current_hash = "''#a\<newline>b\<newline>c\<newline>''" and total_lines = 3 and sz = 6]
  by (auto simp: example_defs handler_defs engine_defs)

subsection \<open>Failures inside a batch\<close>




subsection \<open>Relative paths\<close>

text \<open>
  C3. A relative path fails the call before any file is read or written. The read handler
  does so (\<open>get_rejects_relative_path\<close>). The edit handler checks the path of a file
  operation only when the loop reaches it: in this run the file of the first operation is
  rewritten on disk, then the relative path of the second one fails the call.
\<close>

theorem edit_relative_path_after_write:
  "edit_run_tool (spec_editor tag_hash)
     \<lparr>ea_files = Some
        [\<lparr>fo_path = Some ''/a.txt'', fo_file_hash = Some ''#a\<newline>b\<newline>c\<newline>'',
          fo_patches = Some [example_patch]\<rparr>,
         \<lparr>fo_path = Some ''b.txt'', fo_file_hash = Some '''',
          fo_patches = Some [creation_patch ''x'']\<rparr>],
      ea_encoding = None\<rparr> example_world =
   (Inl (RuntimeError ''Error processing request: File path must be absolute: b.txt''),
    \<lparr>w_disk = [''/a.txt'' \<mapsto> ''a\<newline>B\<newline>c\<newline>''],
     w_trace = [EditFileContents ''/a.txt'' ''#a\<newline>b\<newline>c\<newline>'' [example_patch]
                  ''utf-8'']\<rparr>)"
  by (simp add: edit_run_tool_def example_defs handler_defs engine_defs)

subsection \<open>Empty patch lists\<close>



subsection \<open>The hash of an error entry\<close>

text \<open>
  C5, as the handler has it. For an empty patches list the entry carries the hash token of
  the caller. When the edit raises, the entry carries the hash that a fresh
  \<open>read_file_contents\<close> of the path returns on the disk the edit has left, and no hash
  when that read raises. An error result that the engine returns is stored as it is: it
  carries the current hash of the file, none when there is no file, and the file is
  unchanged.
\<close>

theorem failure_hash_is_read_again:
  "edit_one_file ed arguments p h [] w = (error_entry ''Empty patches list'' (Some h), w)
   \<and> (ps \<noteq> [] \<and> edit_file_contents ed p h ps (get_encoding (ea_encoding arguments)) (w_disk w)
          = (Inl e, d') \<longrightarrow>
        fst (edit_one_file ed arguments p h ps w) =
          error_entry (str_exn e)
            (case read_file_contents ed p None d' of
               Inl _ \<Rightarrow> None
             | Inr (_, _, _, current_hash, _, _) \<Rightarrow> Some current_hash))
   \<and> (ps \<noteq> []
        \<and> er_result (fst (edit_one_file (spec_editor H) arguments p h ps w)) = ''error'' \<longrightarrow>
        w_disk (snd (edit_one_file (spec_editor H) arguments p h ps w)) = w_disk w
        \<and> er_file_hash (fst (edit_one_file (spec_editor H) arguments p h ps w)) =
            map_option H (w_disk w p))"
  by (auto simp: edit_one_file_def call_edit_file_contents_def read_current_hash_def
      call_read_file_contents_def spec_editor_def spec_edit_file_contents_def error_entry_def
      split: prod.splits sum.splits option.splits if_splits)

theorem failure_hash_is_read_again_witness:
  "fst (edit_one_file failing_editor \<lparr>ea_files = None, ea_encoding = None\<rparr> ''/a.txt''
          ''stale'' [example_patch] example_world) =
     error_entry ''No space left on device'' (Some ''#a\<newline>b\<newline>c\<newline>'')
   \<and> fst (edit_one_file (spec_editor tag_hash) \<lparr>ea_files = None, ea_encoding = None\<rparr> ''/a.txt''
          ''stale'' [example_patch] example_world) =
     error_entry ''file hash mismatch'' (Some ''#a\<newline>b\<newline>c\<newline>'')"
  using failure_hash_is_read_again[where ed = failing_editor
      and arguments = "\<lparr>ea_files = None, ea_encoding = None\<rparr>" and p = "''/a.txt''"
      and h = "''stale''" and ps = "[example_patch]" and w = example_world
      and e = "OtherException ''No space left on device''" and d' = example_disk
      and H = tag_hash]
  by (simp add: failing_editor_def example_disk_def example_world_def handler_defs engine_defs)

text \<open>
  C5 as it is worded does not hold: with an empty patches list the entry has the token of
  the caller, here \<open>stale\<close>, and not the hash that a read of the file returns.
\<close>

theorem empty_patches_echo_token_counterexample:
  "edit_run_tool (spec_editor tag_hash)
     \<lparr>ea_files = Some
        [\<lparr>fo_path = Some ''/a.txt'', fo_file_hash = Some ''stale'', fo_patches = Some []\<rparr>],
      ea_encoding = None\<rparr> example_world =
   (Inr [(''/a.txt'', \<lparr>er_result = ''error'', er_reason = Some ''Empty patches list'',
                        er_file_hash = Some ''stale''\<rparr>)], example_world)
   \<and> spec_read_file_contents tag_hash ''/a.txt'' None (w_disk example_world) =
       Inr (''a\<newline>b\<newline>c\<newline>'', 1, 3, ''#a\<newline>b\<newline>c\<newline>'', 3, 6)"
  by (simp add: edit_run_tool_def example_defs handler_defs engine_defs)

subsection \<open>Create, append and delete as edits\<close>

text \<open>
  C6. Create on a path that exists fails, with the disk unchanged and no edit asked for.
  On a path that does not exist (absolute, contents given) it is the edit with the empty
  expected hash and the single patch \<open>{start: 1, end: null, contents, range_hash: ""}\<close>;
  run on the engine, this edit stores the contents as the file.
\<close>

theorem create_is_edit_sugar:
  assumes "ca_path arguments = Some file_path"
  shows "(w_disk w file_path \<noteq> None \<longrightarrow>
            (\<exists>e w'. create_run_tool ed arguments w = (Inl e, w') \<and> w_disk w' = w_disk w
               \<and> edits_attempted w' = edits_attempted w))
       \<and> (w_disk w file_path = None \<and> isabs file_path \<and> ca_contents arguments = Some contents \<longrightarrow>
            create_run_tool ed arguments w =
              edit_through_handler ed file_path ''''
                [ [''start'' \<mapsto> PInt 1, ''end'' \<mapsto> PNone, ''contents'' \<mapsto> PStr contents,
                  ''range_hash'' \<mapsto> PStr ''''] ]
                (get_encoding (ca_encoding arguments)) (snd (path_exists file_path w))
            \<and> create_run_tool (spec_editor H) arguments w =
                (Inr \<lparr>er_result = ''ok'', er_reason = None, er_file_hash = Some (H contents)\<rparr>,
                 \<lparr>w_disk = (w_disk w)(file_path \<mapsto> contents),
                  w_trace = w_trace w @
                    [PathExists file_path,
                     EditFileContents file_path ''''
                       [ [''start'' \<mapsto> PInt 1, ''end'' \<mapsto> PNone,
                         ''contents'' \<mapsto> PStr contents, ''range_hash'' \<mapsto> PStr ''''] ]
                       (get_encoding (ca_encoding arguments))]\<rparr>))"
  using assms
  by (auto simp: create_run_tool_def edit_through_handler_def path_exists_def
      error_processing_request_def edits_attempted_def creation_patch_def
      call_edit_file_contents_def spec_editor_def spec_create_file
      split: option.splits)

theorem create_is_edit_sugar_witness:
  "create_run_tool (spec_editor tag_hash)
     \<lparr>ca_path = Some ''/new.txt'', ca_contents = Some ''hello\<newline>'', ca_encoding = None\<rparr>
     example_world =
   (Inr \<lparr>er_result = ''ok'', er_reason = None, er_file_hash = Some ''#hello\<newline>''\<rparr>,
    \<lparr>w_disk = example_disk(''/new.txt'' \<mapsto> ''hello\<newline>''),
     w_trace = [PathExists ''/new.txt'',
                EditFileContents ''/new.txt'' ''''
                  [ [''start'' \<mapsto> PInt 1, ''end'' \<mapsto> PNone,
                    ''contents'' \<mapsto> PStr ''hello\<newline>'', ''range_hash'' \<mapsto> PStr ''''] ]
                  ''utf-8'']\<rparr>)
   \<and> create_run_tool (spec_editor tag_hash)
     \<lparr>ca_path = Some ''/a.txt'', ca_contents = Some ''hello\<newline>'', ca_encoding = None\<rparr>
     example_world =
   (Inl (RuntimeError ''Error processing request: File already exists: /a.txt''),
    \<lparr>w_disk = example_disk, w_trace = [PathExists ''/a.txt'']\<rparr>)"
  using create_is_edit_sugar[where arguments = "\<lparr>ca_path = Some ''/new.txt'',
      ca_contents = Some ''hello\<newline>'', ca_encoding = None\<rparr>" and file_path = "''/new.txt''"
      and contents = "''hello\<newline>''" and ed = "spec_editor tag_hash" and H = tag_hash
      and w = example_world]
    create_is_edit_sugar[where arguments = "\<lparr>ca_path = Some ''/a.txt'',
      ca_contents = Some ''hello\<newline>'', ca_encoding = None\<rparr>" and file_path = "''/a.txt''"
      and contents = "''hello\<newline>''" and ed = "spec_editor tag_hash" and H = tag_hash
      and w = example_world]
  by (simp add: create_run_tool_def creation_patch_def example_defs handler_defs tag_hash_def)

text \<open>
  C7. Append on a file that exists reads the file and compares the hash it has read with
  the token of the caller. If they differ the call fails, and the handler has only asked
  whether the path exists and read the file. If they are equal the call is the edit with
  this token and the single patch \<open>{start: total_lines + 1, end: null, range_hash: ""}\<close>,
  \<open>total_lines\<close> being the line count of that same read.
\<close>

theorem append_is_edit_sugar:
  assumes "aa_path arguments = Some file_path" and "isabs file_path"
    and "aa_contents arguments = Some contents" and "aa_file_hash arguments = Some file_hash"
    and "w_disk w file_path \<noteq> None"
    and "read_file_contents ed file_path (Some (get_encoding (aa_encoding arguments))) (w_disk w)
           = Inr (content, s, e, current_hash, total_lines, sz)"
  shows "(current_hash \<noteq> file_hash \<longrightarrow>
            append_run_tool ed arguments w =
              (Inl (RuntimeError
                 ''Error processing request: File hash mismatch - file may have been modified''),
               w\<lparr>w_trace := w_trace w @
                    [PathExists file_path,
                     ReadFileContents file_path (Some (get_encoding (aa_encoding arguments)))]\<rparr>))
       \<and> (current_hash = file_hash \<longrightarrow>
            append_run_tool ed arguments w =
              edit_through_handler ed file_path file_hash
                [ [''start'' \<mapsto> PInt (total_lines + 1), ''end'' \<mapsto> PNone,
                  ''contents'' \<mapsto> PStr (append_content contents), ''range_hash'' \<mapsto> PStr ''''] ]
                (get_encoding (aa_encoding arguments))
                (w\<lparr>w_trace := w_trace w @
                    [PathExists file_path,
                     ReadFileContents file_path (Some (get_encoding (aa_encoding arguments)))]\<rparr>))"
  using assms
  by (auto simp: append_run_tool_def edit_through_handler_def path_exists_def
      error_processing_request_def call_read_file_contents_def append_patch_def)

theorem append_is_edit_sugar_witness:
  "append_run_tool (spec_editor tag_hash)
     \<lparr>aa_path = Some ''/a.txt'', aa_contents = Some ''d'',
      aa_file_hash = Some ''#a\<newline>b\<newline>c\<newline>'', aa_encoding = None\<rparr> example_world =
   (Inr \<lparr>er_result = ''ok'', er_reason = None,
         er_file_hash = Some ''#a\<newline>b\<newline>c\<newline>d\<newline>''\<rparr>,
    \<lparr>w_disk = [''/a.txt'' \<mapsto> ''a\<newline>b\<newline>c\<newline>d\<newline>''],
     w_trace = [PathExists ''/a.txt'', ReadFileContents ''/a.txt'' (Some ''utf-8''),
                EditFileContents ''/a.txt'' ''#a\<newline>b\<newline>c\<newline>''
                  [ [''start'' \<mapsto> PInt 4, ''end'' \<mapsto> PNone, ''contents'' \<mapsto> PStr ''d\<newline>'',
                    ''range_hash'' \<mapsto> PStr ''''] ] ''utf-8'']\<rparr>)
   \<and> append_run_tool (spec_editor tag_hash)
     \<lparr>aa_path = Some ''/a.txt'', aa_contents = Some ''d'',
      aa_file_hash = Some ''#a\<newline>b\<newline>'', aa_encoding = None\<rparr> example_world =
   (Inl (RuntimeError
           ''Error processing request: File hash mismatch - file may have been modified''),
    \<lparr>w_disk = example_disk,
     w_trace = [PathExists ''/a.txt'', ReadFileContents ''/a.txt'' (Some ''utf-8'')]\<rparr>)"
  using append_is_edit_sugar[where arguments = "\<lparr>aa_path = Some ''/a.txt'',
      aa_contents = Some ''d'', aa_file_hash = Some ''#a\<newline>b\<newline>c\<newline>'',
      aa_encoding = None\<rparr>" and file_path = "''/a.txt''" and contents = "''d''"
      and file_hash = "''#a\<newline>b\<newline>c\<newline>''" and ed = "spec_editor tag_hash"
      and w = example_world and content = "''a\<newline>b\<newline>c\<newline>''" and s = 1 and e = 3
      and current_hash = "''#a\<newline>b\<newline>c\<newline>''" and total_lines = 3 and sz = 6]
    append_is_edit_sugar[where arguments = "\<lparr>aa_path = Some ''/a.txt'',
      aa_contents = Some ''d'', aa_file_hash = Some ''#a\<newline>b\<newline>'',
      aa_encoding = None\<rparr>" and file_path = "''/a.txt''" and contents = "''d''"
      and file_hash = "''#a\<newline>b\<newline>''" and ed = "spec_editor tag_hash"
      and w = example_world and content = "''a\<newline>b\<newline>c\<newline>''" and s = 1 and e = 3
      and current_hash = "''#a\<newline>b\<newline>c\<newline>''" and total_lines = 3 and sz = 6]
  by (simp add: append_content_def example_defs handler_defs engine_defs)

text \<open>
  C8. Delete on a file that exists, with ranges that each have a start, an end and a range
  hash, is the edit with the token of the caller and one patch per range, in the order of
  the ranges: the start, end and range hash of the range and the contents \<open>""\<close>.
\<close>

theorem delete_is_edit_sugar:
  assumes "da_file_path arguments = Some file_path" and "isabs file_path"
    and "w_disk w file_path \<noteq> None" and "da_file_hash arguments = Some file_hash"
    and "da_ranges arguments = Some ranges" and "list_all complete_range ranges"
  shows "delete_run_tool ed arguments w =
         edit_through_handler ed file_path file_hash (map range_deletion ranges)
           (get_encoding (da_encoding arguments)) (snd (path_exists file_path w))"
  using assms
  by (simp add: delete_run_tool_def edit_through_handler_def path_exists_def
      deletion_patches_complete)

theorem delete_is_edit_sugar_witness:
  "delete_run_tool (spec_editor tag_hash)
     \<lparr>da_file_path = Some ''/a.txt'', da_file_hash = Some ''#a\<newline>b\<newline>c\<newline>'',
      da_ranges = Some [ [''start'' \<mapsto> PInt 2, ''end'' \<mapsto> PInt 2,
                         ''range_hash'' \<mapsto> PStr ''#b\<newline>''] ],
      da_encoding = None\<rparr> example_world =
   (Inr \<lparr>er_result = ''ok'', er_reason = None, er_file_hash = Some ''#a\<newline>c\<newline>''\<rparr>,
    \<lparr>w_disk = [''/a.txt'' \<mapsto> ''a\<newline>c\<newline>''],
     w_trace = [PathExists ''/a.txt'',
                EditFileContents ''/a.txt'' ''#a\<newline>b\<newline>c\<newline>''
                  [ [''start'' \<mapsto> PInt 2, ''end'' \<mapsto> PInt 2, ''contents'' \<mapsto> PStr '''',
                    ''range_hash'' \<mapsto> PStr ''#b\<newline>''] ] ''utf-8'']\<rparr>)"
  using delete_is_edit_sugar[where arguments = "\<lparr>da_file_path = Some ''/a.txt'',
      da_file_hash = Some ''#a\<newline>b\<newline>c\<newline>'',
      da_ranges = Some [ [''start'' \<mapsto> PInt 2, ''end'' \<mapsto> PInt 2,
                         ''range_hash'' \<mapsto> PStr ''#b\<newline>''] ],
      da_encoding = None\<rparr>"
      and ranges = "[ [''start'' \<mapsto> PInt 2, ''end'' \<mapsto> PInt 2,
                         ''range_hash'' \<mapsto> PStr ''#b\<newline>''] ]"
      and file_path = "''/a.txt''" and file_hash = "''#a\<newline>b\<newline>c\<newline>''"
      and ed = "spec_editor tag_hash" and w = example_world]
  by (simp add: complete_range_def range_deletion_def example_defs handler_defs engine_defs)

subsection \<open>An empty batch\<close>

text \<open>
  C9. An edit request with an empty list of file operations returns the empty results;
  the world is the same, so no file has been accessed, and no error is raised.
\<close>

theorem edit_empty_files:
  "edit_run_tool ed (arguments\<lparr>ea_files := Some []\<rparr>) w = (Inr [], w)"
  by (simp add: edit_run_tool_def error_processing_request_def)

subsection \<open>Ranges without an end\<close>

text \<open>
  C10. If an entry of \<open>ranges\<close> has no key \<open>end\<close>, the delete call fails, the disk is
  unchanged and no edit is asked for. When the request is otherwise in order, every range
  having the keys that the input schema requires, the failure is the lookup error of the
  key \<open>end\<close>, raised while the patches are built, after the handler has asked whether
  the path exists.
\<close>

theorem delete_requires_end:
  assumes "da_ranges arguments = Some ranges" and "r \<in> set ranges" and "r ''end'' = None"
  shows "(\<exists>e w'. delete_run_tool ed arguments w = (Inl e, w') \<and> w_disk w' = w_disk w
            \<and> edits_attempted w' = edits_attempted w)
       \<and> (da_file_path arguments = Some file_path \<and> isabs file_path
            \<and> w_disk w file_path \<noteq> None \<and> da_file_hash arguments \<noteq> None
            \<and> (\<forall>x \<in> set ranges. \<forall>k \<in> set ranges_item_required. x k \<noteq> None)
          \<longrightarrow> delete_run_tool ed arguments w =
                (Inl (RuntimeError (''Error processing request: '' @ str_exn (KeyError ''end''))),
                 w\<lparr>w_trace := w_trace w @ [PathExists file_path]\<rparr>))"
proof
  obtain k where k: "deletion_patches ranges = Inl (KeyError k)"
    using deletion_patches_fail[OF assms(2,3)] by blast
  show "\<exists>e w'. delete_run_tool ed arguments w = (Inl e, w') \<and> w_disk w' = w_disk w
            \<and> edits_attempted w' = edits_attempted w"
    using assms(1) k
    by (auto simp: delete_run_tool_def error_processing_request_def path_exists_def
        edits_attempted_def split: option.splits bool.splits)
next
  show "da_file_path arguments = Some file_path \<and> isabs file_path
            \<and> w_disk w file_path \<noteq> None \<and> da_file_hash arguments \<noteq> None
            \<and> (\<forall>x \<in> set ranges. \<forall>k \<in> set ranges_item_required. x k \<noteq> None)
          \<longrightarrow> delete_run_tool ed arguments w =
                (Inl (RuntimeError (''Error processing request: '' @ str_exn (KeyError ''end''))),
                 w\<lparr>w_trace := w_trace w @ [PathExists file_path]\<rparr>)"
  proof
    assume h: "da_file_path arguments = Some file_path \<and> isabs file_path
            \<and> w_disk w file_path \<noteq> None \<and> da_file_hash arguments \<noteq> None
            \<and> (\<forall>x \<in> set ranges. \<forall>k \<in> set ranges_item_required. x k \<noteq> None)"
    then have "deletion_patches ranges = Inl (KeyError ''end'')"
      using deletion_patches_missing_end[OF assms(2,3)] by blast
    with h assms(1) show "delete_run_tool ed arguments w =
                (Inl (RuntimeError (''Error processing request: '' @ str_exn (KeyError ''end''))),
                 w\<lparr>w_trace := w_trace w @ [PathExists file_path]\<rparr>)"
      by (auto simp: delete_run_tool_def error_processing_request_def path_exists_def)
  qed
qed

theorem delete_requires_end_witness:
  "delete_run_tool (spec_editor tag_hash)
     \<lparr>da_file_path = Some ''/a.txt'', da_file_hash = Some ''#a\<newline>b\<newline>c\<newline>'',
      da_ranges = Some [ [''start'' \<mapsto> PInt 2, ''range_hash'' \<mapsto> PStr ''#b\<newline>''] ],
      da_encoding = None\<rparr> example_world =
   (Inl (RuntimeError (''Error processing request: '' @ quoted ''end'')),
    \<lparr>w_disk = example_disk, w_trace = [PathExists ''/a.txt'']\<rparr>)"
  using delete_requires_end[where arguments = "\<lparr>da_file_path = Some ''/a.txt'',
      da_file_hash = Some ''#a\<newline>b\<newline>c\<newline>'',
      da_ranges = Some [ [''start'' \<mapsto> PInt 2, ''range_hash'' \<mapsto> PStr ''#b\<newline>''] ],
      da_encoding = None\<rparr>"
      and ranges = "[ [''start'' \<mapsto> PInt 2, ''range_hash'' \<mapsto> PStr ''#b\<newline>''] ]"
      and r = "[''start'' \<mapsto> PInt 2, ''range_hash'' \<mapsto> PStr ''#b\<newline>'']"
      and file_path = "''/a.txt''" and ed = "spec_editor tag_hash" and w = example_world]
  by (simp add: isabs_def ranges_item_required_def example_defs)

end
